theory Spec2Isabelle
  imports Complex_Main
begin

section \<open>BaseAvatar: the candidate list and the retry cursor\<close>

text \<open>
  A shallow embedding of \<^verbatim>\<open>src/components/views/avatars/BaseAvatar.tsx\<close>.

  JavaScript values are modelled as follows. A \<^verbatim>\<open>string\<close> is a \<^typ>\<open>string\<close>; an array
  is a list. The inputs \<^verbatim>\<open>url\<close> and \<^verbatim>\<open>urls\<close> of the hook (which enter the dependency
  array of its effect), the prop \<^verbatim>\<open>defaultToInitialLetter\<close> (whose default replaces
  \<^verbatim>\<open>undefined\<close> only) and the two sync states are values of type \<open>js\<close>, which keeps
  \<^verbatim>\<open>undefined\<close>, \<^verbatim>\<open>null\<close> and a proper value apart. Every other value that may be missing
  (the result of reading an array, the remaining props) is an \<open>option\<close>, with \<open>None\<close> for
  \<^verbatim>\<open>undefined\<close> and for nothing else: \<^verbatim>\<open>null\<close> is not among the values of these props
  in the model. The state index of the hook starts at 0 and is only ever
  incremented or set to 0, so it is a \<^typ>\<open>nat\<close> (a JavaScript number counts exactly
  up to 2^53, far beyond any number of load failures).
\<close>

subsection \<open>JavaScript primitives used by the component\<close>

datatype 'a js = Undefined | Null | Value 'a

text \<open>
  The specification speaks of optional inputs, present or absent: \<^verbatim>\<open>undefined\<close> and
  \<^verbatim>\<open>null\<close> are both absent.
\<close>

definition present :: "'a js \<Rightarrow> 'a option" where
  "present v = (case v of Undefined \<Rightarrow> None | Null \<Rightarrow> None | Value x \<Rightarrow> Some x)"

text \<open>
  Truthiness of a string that may be \<^verbatim>\<open>undefined\<close>, as tested by \<^verbatim>\<open>!imageUrl\<close> and
  \<^verbatim>\<open>idName || name\<close>: \<^verbatim>\<open>undefined\<close> and the empty string are falsy, every other string
  is truthy.
\<close>

definition truthy :: "string option \<Rightarrow> bool" where
  "truthy v = (case v of None \<Rightarrow> False | Some s \<Rightarrow> s \<noteq> [])"

text \<open>
  A JavaScript \<^verbatim>\<open>Set\<close> keeps its members in insertion order and ignores the insertion
  of a member it already has. \<^verbatim>\<open>new Set(iterable)\<close> adds the elements from left to
  right; \<^verbatim>\<open>Array.from(set)\<close> lists the members in insertion order.
\<close>

definition Set_add :: "'a list \<Rightarrow> 'a \<Rightarrow> 'a list" where
  "Set_add s x = (if x \<in> set s then s else s @ [x])"

definition new_Set :: "'a list \<Rightarrow> 'a list" where
  "new_Set xs = foldl Set_add [] xs"

definition Array_from :: "'a list \<Rightarrow> 'a list" where
  "Array_from s = s"

text \<open>
  Reading an array at an index: JavaScript yields \<^verbatim>\<open>undefined\<close> past the end and
  does not throw.
\<close>

definition index_at :: "'a list \<Rightarrow> nat \<Rightarrow> 'a option" where
  "index_at xs i = (if i < length xs then Some (xs ! i) else None)"

subsection \<open>calculateUrls\<close>

text \<open>
  \<^verbatim>\<open>calculateUrls(url, urls)\<close>. The first argument of the model is the value of
  \<^verbatim>\<open>SettingsStore.getValue("lowBandwidth")\<close>, which the function reads from the settings
  store (not part of this file of the repository). \<^verbatim>\<open>urls || []\<close> replaces
  \<^verbatim>\<open>undefined\<close> and \<^verbatim>\<open>null\<close> (an array, even an empty one, is truthy); \<^verbatim>\<open>if (url)\<close>
  fails for \<^verbatim>\<open>undefined\<close>, \<^verbatim>\<open>null\<close> and the empty string.
\<close>

definition calculateUrls :: "bool \<Rightarrow> string js \<Rightarrow> string list js \<Rightarrow> string list" where
  "calculateUrls lowBandwidth url urls =
     (let urls0 = [];
          urls2 =
            (if \<not> lowBandwidth then
               (let urls1 = (case urls of Undefined \<Rightarrow> [] | Null \<Rightarrow> [] | Value us \<Rightarrow> us)
                in case url of
                     Undefined \<Rightarrow> urls1
                   | Null \<Rightarrow> urls1
                   | Value u \<Rightarrow> if u \<noteq> [] then u # urls1 else urls1)
             else urls0)
      in Array_from (new_Set urls2))"

text \<open>
  The list builder in the words of the specification: empty under bandwidth saving,
  otherwise the fallbacks (empty if absent) with the primary URL prepended when present,
  deduplicated keeping first occurrences in order.
\<close>

fun dedup_first :: "'a list \<Rightarrow> 'a list" where
  "dedup_first [] = []"
| "dedup_first (x # xs) = x # dedup_first (filter (\<lambda>y. y \<noteq> x) xs)"

definition build :: "string option \<Rightarrow> string list option \<Rightarrow> bool \<Rightarrow> string list" where
  "build primaryUrl fallbackUrls bandwidthSaving =
     (if bandwidthSaving then []
      else dedup_first
        ((case primaryUrl of None \<Rightarrow> [] | Some u \<Rightarrow> [u]) @
         (case fallbackUrls of None \<Rightarrow> [] | Some us \<Rightarrow> us)))"

subsection \<open>JSON.stringify on the fallback list\<close>

text \<open>
  The effect of \<^verbatim>\<open>useImageUrl\<close> depends on \<^verbatim>\<open>[url, JSON.stringify(urls)]\<close>.
  \<^verbatim>\<open>JSON.stringify(undefined)\<close> is \<^verbatim>\<open>undefined\<close>, \<^verbatim>\<open>JSON.stringify(null)\<close> is the
  string \<^verbatim>\<open>null\<close>, and an array of strings is serialised as
  its quoted elements, separated by commas, in square brackets. A string is quoted by
  \<^verbatim>\<open>QuoteJSONString\<close>: the double quote and the backslash are escaped with a backslash,
  the control characters below U+0020 are written as \<^verbatim>\<open>\b \t \n \f \r\<close> or as
  \<^verbatim>\<open>\u00XX\<close> with lowercase hexadecimal digits, every other character stands for itself.
  The characters of a \<^typ>\<open>string\<close> are 8-bit code units, so the unpaired surrogates,
  which \<^verbatim>\<open>QuoteJSONString\<close> escapes as well, do not occur.
\<close>

definition hex_digit :: "nat \<Rightarrow> char" where
  "hex_digit n = (if n < 10 then char_of (48 + n) else char_of (87 + n))"

definition json_escape :: "char \<Rightarrow> string" where
  "json_escape c =
     (if c = CHR 0x08 then [CHR 0x5C, CHR ''b'']
      else if c = CHR 0x09 then [CHR 0x5C, CHR ''t'']
      else if c = CHR 0x0A then [CHR 0x5C, CHR ''n'']
      else if c = CHR 0x0C then [CHR 0x5C, CHR ''f'']
      else if c = CHR 0x0D then [CHR 0x5C, CHR ''r'']
      else if c = CHR 0x22 then [CHR 0x5C, CHR 0x22]
      else if c = CHR 0x5C then [CHR 0x5C, CHR 0x5C]
      else if (of_char c :: nat) < 32 then
        [CHR 0x5C, CHR ''u'', CHR ''0'', CHR ''0'',
         hex_digit ((of_char c :: nat) div 16), hex_digit ((of_char c :: nat) mod 16)]
      else [c])"

definition QuoteJSONString :: "string \<Rightarrow> string" where
  "QuoteJSONString s = [CHR 0x22] @ concat (map json_escape s) @ [CHR 0x22]"

fun join_comma :: "string list \<Rightarrow> string" where
  "join_comma [] = []"
| "join_comma [x] = x"
| "join_comma (x # y # ys) = x @ [CHR '',''] @ join_comma (y # ys)"

definition JSON_stringify :: "string list js \<Rightarrow> string option" where
  "JSON_stringify urls =
     (case urls of
        Undefined \<Rightarrow> None
      | Null \<Rightarrow> Some ''null''
      | Value us \<Rightarrow> Some ([CHR ''[''] @ join_comma (map QuoteJSONString us) @ [CHR '']'']))"

subsection \<open>useImageUrl\<close>

text \<open>
  The state of the hook: the two \<^verbatim>\<open>useState\<close> cells and the dependency array React
  remembers for the \<^verbatim>\<open>useEffect\<close>: the value of \<^verbatim>\<open>url\<close> and the string (or
  \<^verbatim>\<open>undefined\<close>) that \<^verbatim>\<open>JSON.stringify(urls)\<close> gave.
\<close>

record hook_state =
  imageUrls :: "string list"
  urlsIndex :: nat
  deps :: "string js \<times> string option"

text \<open>\<^verbatim>\<open>const imageUrl = imageUrls[urlsIndex]\<close>: the first component the hook returns.\<close>

definition imageUrl :: "hook_state \<Rightarrow> string option" where
  "imageUrl st = index_at (imageUrls st) (urlsIndex st)"

text \<open>\<^verbatim>\<open>onError\<close>: \<^verbatim>\<open>setIndex(i => i + 1)\<close>.\<close>

definition onError :: "hook_state \<Rightarrow> hook_state" where
  "onError st = st\<lparr>urlsIndex := urlsIndex st + 1\<rparr>"

text \<open>
  \<^verbatim>\<open>onClientSync(syncState, prevState)\<close>. Sync states are the strings of the client
  (\<^verbatim>\<open>"ERROR"\<close>, \<^verbatim>\<open>"SYNCING"\<close>, ...); the previous state is \<^verbatim>\<open>null\<close> on the first event.
  \<^verbatim>\<open>!==\<close> compares strings by value and tells \<^verbatim>\<open>null\<close>, \<^verbatim>\<open>undefined\<close> and strings apart.
\<close>

definition onClientSync :: "string js \<Rightarrow> string js \<Rightarrow> hook_state \<Rightarrow> hook_state" where
  "onClientSync syncState prevState st =
     (let reconnected = (syncState \<noteq> Value ''ERROR'' \<and> prevState \<noteq> syncState)
      in if reconnected then st\<lparr>urlsIndex := 0\<rparr> else st)"

text \<open>The body of the effect: \<^verbatim>\<open>setUrls(calculateUrls(url, urls)); setIndex(0)\<close>.\<close>

definition effect :: "bool \<Rightarrow> string js \<Rightarrow> string list js \<Rightarrow> hook_state \<Rightarrow> hook_state" where
  "effect lowBandwidth url urls st =
     st\<lparr>imageUrls := calculateUrls lowBandwidth url urls, urlsIndex := 0\<rparr>"

text \<open>
  The first render: both state cells are initialised, the dependency array is recorded
  and the effect runs once.
\<close>

definition useImageUrl_mount :: "bool \<Rightarrow> string js \<Rightarrow> string list js \<Rightarrow> hook_state" where
  "useImageUrl_mount lowBandwidth url urls =
     effect lowBandwidth url urls
       \<lparr>imageUrls = calculateUrls lowBandwidth url urls, urlsIndex = 0,
        deps = (url, JSON_stringify urls)\<rparr>"

text \<open>
  A later render with the props \<^verbatim>\<open>url\<close> and \<^verbatim>\<open>urls\<close>: React compares the new
  dependency array with the recorded one, element by element with \<^verbatim>\<open>Object.is\<close>
  (strings are equal when their characters are; \<^verbatim>\<open>undefined\<close> and \<^verbatim>\<open>null\<close> are each equal
  to themselves only), and runs the effect when they differ. The state returned is the one
  after that effect.
\<close>

definition useImageUrl_update :: "bool \<Rightarrow> string js \<Rightarrow> string list js \<Rightarrow> hook_state \<Rightarrow> hook_state" where
  "useImageUrl_update lowBandwidth url urls st =
     (let d = (url, JSON_stringify urls)
      in if d \<noteq> deps st then effect lowBandwidth url urls (st\<lparr>deps := d\<rparr>) else st)"

text \<open>The three kinds of event the hook reacts to, and a run over a sequence of them.\<close>

datatype event =
    LoadFailure
  | Sync "string js" "string js"
  | Render bool "string js" "string list js"

fun step :: "event \<Rightarrow> hook_state \<Rightarrow> hook_state" where
  "step LoadFailure st = onError st"
| "step (Sync syncState prevState) st = onClientSync syncState prevState st"
| "step (Render lowBandwidth url urls) st = useImageUrl_update lowBandwidth url urls st"

definition run :: "event list \<Rightarrow> hook_state \<Rightarrow> hook_state" where
  "run evs st = foldl (\<lambda>s ev. step ev s) st evs"

text \<open>
  The render layer reports a load failure for the image it attempted: in such a run every
  load failure arrives while the cursor still points into the candidate list.
\<close>

fun failures_while_resolved :: "event list \<Rightarrow> hook_state \<Rightarrow> bool" where
  "failures_while_resolved [] st = True"
| "failures_while_resolved (ev # evs) st =
     ((if ev = LoadFailure then urlsIndex st < length (imageUrls st) else True) \<and>
      failures_while_resolved evs (step ev st))"

text \<open>
  Whether an event keeps the \<^verbatim>\<open>url\<close> and \<^verbatim>\<open>urls\<close> inputs at the given values: a
  render does when it passes these very values, the two handlers always do.
\<close>

fun same_inputs :: "string js \<Rightarrow> string list js \<Rightarrow> event \<Rightarrow> bool" where
  "same_inputs url urls (Render lowBandwidth url' urls') = (url' = url \<and> urls' = urls)"
| "same_inputs url urls ev = True"

section \<open>BaseAvatar: rendering\<close>

subsection \<open>Collaborators and props\<close>

text \<open>
  The functions the component imports from other modules of the repository
  (\<^verbatim>\<open>Avatar\<close>, \<^verbatim>\<open>utils/units\<close>, \<^verbatim>\<open>languageHandler\<close>, \<^verbatim>\<open>settings/SettingsStore\<close>) and
  \<^verbatim>\<open>classnames\<close> are parameters of the model. A call either returns a value or throws;
  \<open>'e\<close> is the type of what is thrown. \<^verbatim>\<open>_t\<close> is spelled \<open>underscore_t\<close>, and
  \<open>SettingsStore_lowBandwidth\<close> is the value of \<^verbatim>\<open>SettingsStore.getValue("lowBandwidth")\<close>.
\<close>

record 'e collaborators =
  defaultAvatarUrlForString :: "string option \<Rightarrow> 'e + string"
  getInitialLetter :: "string option \<Rightarrow> 'e + string option"
  toPx :: "real \<Rightarrow> 'e + string"
  underscore_t :: "string \<Rightarrow> 'e + string"
  classNames :: "string \<Rightarrow> string option \<Rightarrow> 'e + string"
  SettingsStore_lowBandwidth :: bool

text \<open>Sequencing of calls that may throw: the first exception ends the evaluation.\<close>

definition and_then :: "'e + 'a \<Rightarrow> ('a \<Rightarrow> 'e + 'b) \<Rightarrow> 'e + 'b" where
  "and_then r f = (case r of Inl e \<Rightarrow> Inl e | Inr v \<Rightarrow> f v)"

text \<open>
  \<^verbatim>\<open>IProps\<close>. Every field but \<^verbatim>\<open>name\<close> is optional; \<^verbatim>\<open>name\<close> is declared a string, and
  a caller written in JavaScript can still leave it \<^verbatim>\<open>undefined\<close>, so it is optional in
  the model as well. \<open>otherProps\<close> holds the props the component does not destructure.
  Numbers are modelled as reals: no claim depends on rounding. In the fields of type
  \<open>option\<close>, \<open>None\<close> is \<^verbatim>\<open>undefined\<close>.
\<close>

datatype cssval = CssString string | CssNumber real

record ('h, 'r, 'a) IProps =
  prop_name :: "string option"
  prop_idName :: "string option"
  prop_title :: "string option"
  prop_url :: "string js"
  prop_urls :: "string list js"
  prop_width :: "real option"
  prop_height :: "real option"
  prop_resizeMethod :: "string option"
  prop_defaultToInitialLetter :: "bool js"
  prop_onClick :: "'h option"
  prop_inputRef :: "'r option"
  prop_className :: "string option"
  prop_style :: "(string \<rightharpoonup> cssval) option"
  otherProps :: "string \<rightharpoonup> 'a"

subsection \<open>React elements\<close>

text \<open>
  A JSX expression creates an element: a type (the \<^verbatim>\<open>AccessibleButton\<close> component or a
  host tag) and a props object, in which a later attribute or spread overrides an earlier
  one of the same name.
\<close>

datatype element_type = AccessibleButton | Host string

datatype ('h, 'r, 'a) jsx_value =
    VString string
  | VUndefined
  | VNull
  | VStyle "string \<rightharpoonup> cssval"
  | VHandler 'h
  | VOnError
  | VRef 'r
  | VOther 'a

datatype ('h, 'r, 'a) element =
  Element (el_type: element_type) (el_props: "string \<rightharpoonup> ('h, 'r, 'a) jsx_value")

definition of_string :: "string option \<Rightarrow> ('h, 'r, 'a) jsx_value" where
  "of_string v = (case v of None \<Rightarrow> VUndefined | Some s \<Rightarrow> VString s)"

definition of_ref :: "'r option \<Rightarrow> ('h, 'r, 'a) jsx_value" where
  "of_ref v = (case v of None \<Rightarrow> VUndefined | Some r \<Rightarrow> VRef r)"

text \<open>\<^verbatim>\<open>{...otherProps}\<close> inside a JSX expression.\<close>

definition spread :: "(string \<rightharpoonup> 'a) \<Rightarrow> (string \<rightharpoonup> ('h, 'r, 'a) jsx_value)" where
  "spread other = (\<lambda>k. map_option VOther (other k))"

text \<open>\<^verbatim>\<open>a || b\<close> on optional strings.\<close>

definition or_else :: "string option \<Rightarrow> string option \<Rightarrow> string option" where
  "or_else a b = (if truthy a then a else b)"


subsection \<open>The component\<close>

text \<open>
  The branch \<^verbatim>\<open>if (!imageUrl && defaultToInitialLetter) { ... }\<close>: the placeholder.
  The arguments are the destructured props with their defaults applied.
\<close>

definition render_placeholder ::
  "'e collaborators \<Rightarrow> ('h, 'r, 'a) IProps \<Rightarrow> real \<Rightarrow> real \<Rightarrow> bool \<Rightarrow> 'e + ('h, 'r, 'a) element" where
  "render_placeholder env props width height defaultToInitialLetter =
     and_then (toPx env (width * 0.65)) (\<lambda>fontSize.
     and_then (toPx env width) (\<lambda>w.
     and_then (toPx env height) (\<lambda>h.
     and_then (defaultAvatarUrlForString env (or_else (prop_idName props) (prop_name props)))
       (\<lambda>background.
     let styleProp =
       (case prop_style props of None \<Rightarrow> Map.empty | Some s \<Rightarrow> s)
         (''fontSize'' \<mapsto> CssString fontSize,
          ''width'' \<mapsto> CssString w,
          ''height'' \<mapsto> CssString h,
          ''background'' \<mapsto> CssString (''url('' @ background @ '')''),
          ''borderRadius'' \<mapsto> CssString ''50%'')
     in
       case prop_onClick props of
         Some onClick \<Rightarrow>
           and_then (underscore_t env ''Avatar'') (\<lambda>label.
           and_then (classNames env ''mx_BaseAvatar'' (prop_className props)) (\<lambda>cls.
           and_then
             (if defaultToInitialLetter
              then and_then (getInitialLetter env (prop_name props)) (\<lambda>l. Inr (of_string l))
              else Inr VNull) (\<lambda>initial.
           Inr (Element AccessibleButton
             (([''aria-label'' \<mapsto> VString label] ++ spread (otherProps props))
                (''element'' \<mapsto> VString ''span'',
                 ''className'' \<mapsto> VString cls,
                 ''onClick'' \<mapsto> VHandler onClick,
                 ''inputRef'' \<mapsto> of_ref (prop_inputRef props),
                 ''data-initial'' \<mapsto> initial,
                 ''style'' \<mapsto> VStyle styleProp))))))
       | None \<Rightarrow>
           and_then (classNames env ''mx_BaseAvatar'' (prop_className props)) (\<lambda>cls.
           and_then
             (if defaultToInitialLetter
              then and_then (getInitialLetter env (prop_name props)) (\<lambda>l. Inr (of_string l))
              else Inr VNull) (\<lambda>initial.
           Inr (Element (Host ''span'')
             (([''className'' \<mapsto> VString cls,
                ''ref'' \<mapsto> of_ref (prop_inputRef props)] ++ spread (otherProps props))
                (''role'' \<mapsto> VString ''presentation'',
                 ''data-initial'' \<mapsto> initial,
                 ''style'' \<mapsto> VStyle styleProp)))))))))"

text \<open>The rest of the function: the image, as a button when there is a click handler.\<close>

definition render_image ::
  "'e collaborators \<Rightarrow> ('h, 'r, 'a) IProps \<Rightarrow> real \<Rightarrow> real \<Rightarrow> string option \<Rightarrow> 'e + ('h, 'r, 'a) element" where
  "render_image env props width height src =
     (case prop_onClick props of
        Some onClick \<Rightarrow>
          and_then (classNames env ''mx_BaseAvatar mx_BaseAvatar_image'' (prop_className props))
            (\<lambda>cls.
          and_then (toPx env width) (\<lambda>w.
          and_then (toPx env height) (\<lambda>h.
          and_then (underscore_t env ''Avatar'') (\<lambda>alt.
          Inr (Element AccessibleButton
            ([''className'' \<mapsto> VString cls,
              ''element'' \<mapsto> VString ''img'',
              ''src'' \<mapsto> of_string src,
              ''onClick'' \<mapsto> VHandler onClick,
              ''onError'' \<mapsto> VOnError,
              ''style'' \<mapsto> VStyle
                ((case prop_style props of None \<Rightarrow> Map.empty | Some s \<Rightarrow> s)
                   (''width'' \<mapsto> CssString w, ''height'' \<mapsto> CssString h)),
              ''title'' \<mapsto> of_string (prop_title props),
              ''alt'' \<mapsto> VString alt,
              ''inputRef'' \<mapsto> of_ref (prop_inputRef props)] ++ spread (otherProps props)))))))
      | None \<Rightarrow>
          and_then (classNames env ''mx_BaseAvatar mx_BaseAvatar_image'' (prop_className props))
            (\<lambda>cls.
          and_then (toPx env width) (\<lambda>w.
          and_then (toPx env height) (\<lambda>h.
          Inr (Element (Host ''img'')
            ([''className'' \<mapsto> VString cls,
              ''src'' \<mapsto> of_string src,
              ''onError'' \<mapsto> VOnError,
              ''style'' \<mapsto> VStyle
                ((case prop_style props of None \<Rightarrow> Map.empty | Some s \<Rightarrow> s)
                   (''width'' \<mapsto> CssString w, ''height'' \<mapsto> CssString h)),
              ''title'' \<mapsto> of_string (prop_title props),
              ''alt'' \<mapsto> VString '''',
              ''ref'' \<mapsto> of_ref (prop_inputRef props)] ++ spread (otherProps props)))))))"

text \<open>
  \<^verbatim>\<open>BaseAvatar(props)\<close> in a given state of its hook: the props are destructured with
  their defaults, the hook yields \<^verbatim>\<open>imageUrl\<close> (here \<open>imageUrl st\<close>), and one of the
  four elements is returned. \<^verbatim>\<open>resizeMethod\<close> is destructured (so it is not among \<open>otherProps\<close>) and
  not used. The default \<^verbatim>\<open>defaultToInitialLetter = true\<close> replaces \<^verbatim>\<open>undefined\<close> only;
  \<^verbatim>\<open>null\<close> stays and is falsy in the two tests made of it, so the model keeps the
  truth value of the destructured variable.
\<close>

definition BaseAvatar ::
  "'e collaborators \<Rightarrow> ('h, 'r, 'a) IProps \<Rightarrow> hook_state \<Rightarrow> 'e + ('h, 'r, 'a) element" where
  "BaseAvatar env props st =
     (let width = (case prop_width props of None \<Rightarrow> 40 | Some w \<Rightarrow> w);
          height = (case prop_height props of None \<Rightarrow> 40 | Some h \<Rightarrow> h);
          resizeMethod = (case prop_resizeMethod props of None \<Rightarrow> ''crop'' | Some m \<Rightarrow> m);
          defaultToInitialLetter =
            (case prop_defaultToInitialLetter props of
               Undefined \<Rightarrow> True | Null \<Rightarrow> False | Value b \<Rightarrow> b)
      in if \<not> truthy (imageUrl st) \<and> defaultToInitialLetter
         then render_placeholder env props width height defaultToInitialLetter
         else render_image env props width height (imageUrl st))"

text \<open>
  The component over time: the first render creates the state of the hook from the props;
  a later render with new props lets the hook compare its dependencies and run its effect,
  and the element shown is the one rendered in the state after it.
\<close>

definition BaseAvatar_mount ::
  "'e collaborators \<Rightarrow> ('h, 'r, 'a) IProps \<Rightarrow> hook_state \<times> ('e + ('h, 'r, 'a) element)" where
  "BaseAvatar_mount env props =
     (let st = useImageUrl_mount (SettingsStore_lowBandwidth env) (prop_url props) (prop_urls props)
      in (st, BaseAvatar env props st))"

definition BaseAvatar_rerender ::
  "'e collaborators \<Rightarrow> ('h, 'r, 'a) IProps \<Rightarrow> hook_state \<Rightarrow> hook_state \<times> ('e + ('h, 'r, 'a) element)" where
  "BaseAvatar_rerender env props st =
     (let st' = useImageUrl_update (SettingsStore_lowBandwidth env) (prop_url props)
                  (prop_urls props) st
      in (st', BaseAvatar env props st'))"

text \<open>
  Modelled from the spec: the collaborators of the component are not under
  \<^verbatim>\<open>src/\<close>: the color and initial-letter generator (\<^verbatim>\<open>Avatar.defaultAvatarUrlForString\<close>,
  \<^verbatim>\<open>Avatar.getInitialLetter\<close>), the pixel formatter \<^verbatim>\<open>toPx\<close>, the translation \<^verbatim>\<open>_t\<close>,
  \<^verbatim>\<open>classNames\<close> and the settings store. The specification gives them as "a color/letter
  generator exposing \<^verbatim>\<open>colorFor(key) -> color\<close> and \<^verbatim>\<open>initialLetterFor(name) -> character\<close>",
  "a string-to-pixel formatter" and "a global read-only setting flag", and says that
  "there are no exceptions/fatal errors in normal operation" and that an empty or undefined
  name yields a placeholder "rather than throwing": each of them is a function that
  returns a value for every argument, the empty and the undefined key included. How the
  color and the letter are computed is left open, so the functions are parameters.
\<close>

definition spec_collaborators ::
  "(string option \<Rightarrow> string) \<Rightarrow> (string option \<Rightarrow> string) \<Rightarrow> (real \<Rightarrow> string) \<Rightarrow>
   (string \<Rightarrow> string) \<Rightarrow> (string \<Rightarrow> string option \<Rightarrow> string) \<Rightarrow> bool \<Rightarrow> 'e collaborators" where
  "spec_collaborators colorFor initialLetterFor toPixels translate classes reducedBandwidth =
     \<lparr>defaultAvatarUrlForString = (\<lambda>key. Inr (colorFor key)),
      getInitialLetter = (\<lambda>name. Inr (Some (initialLetterFor name))),
      toPx = (\<lambda>px. Inr (toPixels px)),
      underscore_t = (\<lambda>s. Inr (translate s)),
      classNames = (\<lambda>a b. Inr (classes a b)),
      SettingsStore_lowBandwidth = reducedBandwidth\<rparr>"

text \<open>
  Collaborators for the examples: a color generator that tells its keys apart, and
  formatters that always return.
\<close>

definition example_colorFor :: "string option \<Rightarrow> string" where
  "example_colorFor key =
     (case key of None \<Rightarrow> ''color-of-undefined'' | Some s \<Rightarrow> ''color-of-'' @ s)"

definition example_initialLetterFor :: "string option \<Rightarrow> string" where
  "example_initialLetterFor name = (case name of None \<Rightarrow> '''' | Some s \<Rightarrow> take 1 s)"

definition example_toPixels :: "real \<Rightarrow> string" where
  "example_toPixels px = ''1px''"

definition example_translate :: "string \<Rightarrow> string" where
  "example_translate s = s"

definition example_classes :: "string \<Rightarrow> string option \<Rightarrow> string" where
  "example_classes a b = (case b of None \<Rightarrow> a | Some c \<Rightarrow> a @ '' '' @ c)"

definition example_collaborators :: "unit collaborators" where
  "example_collaborators =
     spec_collaborators example_colorFor example_initialLetterFor example_toPixels
       example_translate example_classes False"

definition example_props :: "string option \<Rightarrow> bool js \<Rightarrow> (unit, unit, unit) IProps" where
  "example_props name defaultToInitialLetter =
     \<lparr>prop_name = name, prop_idName = None, prop_title = None, prop_url = Undefined,
      prop_urls = Undefined, prop_width = None, prop_height = None, prop_resizeMethod = None,
      prop_defaultToInitialLetter = defaultToInitialLetter, prop_onClick = None,
      prop_inputRef = None, prop_className = None, prop_style = None,
      otherProps = Map.empty\<rparr>"

section \<open>Properties of the list builder\<close>

lemma foldl_Set_add_dedup:
  "distinct acc \<Longrightarrow>
   foldl Set_add acc xs = acc @ dedup_first (filter (\<lambda>y. y \<notin> set acc) xs)"
proof (induction xs arbitrary: acc)
  case Nil
  then show ?case by simp
next
  case (Cons x xs)
  show ?case
  proof (cases "x \<in> set acc")
    case True
    with Cons show ?thesis by (simp add: Set_add_def)
  next
    case False
    have d: "distinct (acc @ [x])" using Cons.prems False by simp
    have f: "(\<lambda>y. y \<noteq> x \<and> y \<notin> set acc) = (\<lambda>y. y \<notin> set acc \<and> y \<noteq> x)"
      by auto
    show ?thesis using False Cons.IH [OF d] by (simp add: Set_add_def f)
  qed
qed

lemma new_Set_dedup_first: "Array_from (new_Set xs) = dedup_first xs"
  using foldl_Set_add_dedup [of "[]" xs] by (simp add: new_Set_def Array_from_def)

lemma set_dedup_first: "set (dedup_first xs) = set xs"
proof (induction xs rule: dedup_first.induct)
  case 1
  then show ?case by simp
next
  case (2 x xs)
  then show ?case by auto
qed

lemma distinct_dedup_first: "distinct (dedup_first xs)"
proof (induction xs rule: dedup_first.induct)
  case 1
  then show ?case by simp
next
  case (2 x xs)
  then show ?case by (simp add: set_dedup_first)
qed

lemma dedup_first_rev_remdups: "dedup_first xs = rev (remdups (rev xs))"
proof (induction xs rule: dedup_first.induct)
  case 1
  then show ?case by simp
next
  case (2 x xs)
  have "remdups (ys @ [x]) = remdups (filter (\<lambda>y. y \<noteq> x) ys) @ [x]" for ys
    by (induction ys) auto
  then show ?case using 2 by (simp add: rev_filter)
qed

section \<open>The serialisation of the fallback list is injective\<close>

text \<open>
  Two fallback lists with the same \<^verbatim>\<open>JSON.stringify\<close> are the same list: every escape
  sequence determines its character and where it ends, the closing quote ends a string,
  and commas and the closing bracket separate the elements.
\<close>

lemma hex_digit_inj: "m < 16 \<Longrightarrow> n < 16 \<Longrightarrow> hex_digit m = hex_digit n \<Longrightarrow> m = n"
  by (auto simp: hex_digit_def char_of_eq_iff take_bit_eq_mod split: if_splits)

lemma hex_digits_char:
  assumes "(of_char c :: nat) < 32" and "(of_char d :: nat) < 32"
    and hi: "hex_digit (of_char c div 16) = hex_digit (of_char d div 16)"
    and lo: "hex_digit (of_char c mod 16) = hex_digit (of_char d mod 16)"
  shows "c = d"
proof -
  have "(of_char c :: nat) div 16 = of_char d div 16"
    using assms(1,2) by (intro hex_digit_inj [OF _ _ hi]) simp_all
  moreover have "(of_char c :: nat) mod 16 = of_char d mod 16"
    by (intro hex_digit_inj [OF _ _ lo]) simp_all
  ultimately have "(of_char c :: nat) = of_char d"
    by (metis div_mult_mod_eq)
  then show ?thesis by simp
qed

lemma json_escape_ne_quote: "json_escape c @ r \<noteq> CHR 0x22 # r'"
  by (simp add: json_escape_def)

lemma json_escape_prefix_free:
  "json_escape c @ r = json_escape d @ r' \<Longrightarrow> c = d \<and> r = r'"
  by (simp add: json_escape_def split: if_splits) (blast intro: hex_digits_char)

lemma escaped_body_inj:
  "concat (map json_escape s) @ CHR 0x22 # r = concat (map json_escape t) @ CHR 0x22 # r' \<Longrightarrow>
   s = t \<and> r = r'"
proof (induction s arbitrary: t)
  case Nil
  then show ?case
    by (cases t) (use json_escape_ne_quote in \<open>auto dest: sym\<close>)
next
  case (Cons c s)
  show ?case
  proof (cases t)
    case Nil
    with Cons.prems show ?thesis using json_escape_ne_quote by auto
  next
    case (Cons d t')
    with Cons.prems have
      "json_escape c @ (concat (map json_escape s) @ CHR 0x22 # r) =
       json_escape d @ (concat (map json_escape t') @ CHR 0x22 # r')"
      by simp
    then have "c = d" and "concat (map json_escape s) @ CHR 0x22 # r =
        concat (map json_escape t') @ CHR 0x22 # r'"
      using json_escape_prefix_free by blast+
    with Cons.IH Cons show ?thesis by blast
  qed
qed

lemma QuoteJSONString_prefix_free:
  "QuoteJSONString s @ r = QuoteJSONString t @ r' \<Longrightarrow> s = t \<and> r = r'"
  using escaped_body_inj [of s r t r'] by (simp add: QuoteJSONString_def)

lemma join_comma_Cons:
  "join_comma (x # xs) @ r = x @ (if xs = [] then r else CHR '','' # join_comma xs @ r)"
  by (cases xs) simp_all

lemma join_quoted_inj:
  "join_comma (map QuoteJSONString xs) @ [CHR '']''] =
   join_comma (map QuoteJSONString ys) @ [CHR '']''] \<Longrightarrow> xs = ys"
proof (induction xs arbitrary: ys)
  case Nil
  show ?case
  proof (cases ys)
    case Nil
    then show ?thesis by simp
  next
    case (Cons y ys')
    with Nil.prems show ?thesis
      by (simp add: join_comma_Cons QuoteJSONString_def)
  qed
next
  case (Cons x xs)
  show ?case
  proof (cases ys)
    case Nil
    with Cons.prems show ?thesis
      by (simp add: join_comma_Cons QuoteJSONString_def)
  next
    case ys: (Cons y ys')
    let ?rx = "if map QuoteJSONString xs = [] then [CHR '']'']
               else CHR '','' # join_comma (map QuoteJSONString xs) @ [CHR '']'']"
    let ?ry = "if map QuoteJSONString ys' = [] then [CHR '']'']
               else CHR '','' # join_comma (map QuoteJSONString ys') @ [CHR '']'']"
    from Cons.prems ys have "QuoteJSONString x @ ?rx = QuoteJSONString y @ ?ry"
      by (simp only: list.map join_comma_Cons)
    then have xy: "x = y" and r: "?rx = ?ry"
      using QuoteJSONString_prefix_free by blast+
    from r have "xs = ys'"
      using Cons.IH [of ys'] by (auto split: if_splits)
    with xy ys show ?thesis by simp
  qed
qed

lemma JSON_stringify_inj: "JSON_stringify a = JSON_stringify b \<Longrightarrow> a = b"
  by (auto simp: JSON_stringify_def join_quoted_inj split: js.splits)

text \<open>An example with a quote, a line feed and a control character.\<close>

lemma JSON_stringify_example:
  "JSON_stringify (Value [''B'', [CHR 0x22, CHR 0x0A, CHR 0x01]]) =
   Some ([CHR ''['', CHR 0x22, CHR ''B'', CHR 0x22, CHR '','',
          CHR 0x22, CHR 0x5C, CHR 0x22, CHR 0x5C, CHR ''n'',
          CHR 0x5C, CHR ''u'', CHR ''0'', CHR ''0'', CHR ''0'', CHR ''1'', CHR 0x22, CHR '']''])"
  by code_simp

section \<open>Claims about the list builder\<close>

text \<open>
  C5. For every primary URL and every fallback list, the list builder returns the empty
  sequence when bandwidth saving is on.
\<close>

theorem calculateUrls_lowBandwidth: "calculateUrls True url urls = []"
  by (simp add: calculateUrls_def new_Set_def Array_from_def)

text \<open>
  C6, as stated: with bandwidth saving off the builder returns the fallbacks with the
  primary URL prepended whenever it is present, deduplicated. The code tests
  \<^verbatim>\<open>if (url)\<close>, so a primary URL that is the empty string is present and yet not
  prepended.
\<close>

theorem calculateUrls_empty_url_counterexample:
  "calculateUrls False (Value '''') (Value [''A'']) = [''A''] \<and>
   build (present (Value '''')) (present (Value [''A''])) False = ['''', ''A''] \<and>
   calculateUrls False (Value '''') (Value [''A''])
     \<noteq> build (present (Value '''')) (present (Value [''A''])) False"
  by (simp add: calculateUrls_def build_def present_def new_Set_def Set_add_def Array_from_def)

text \<open>
  C6, amended. With bandwidth saving off, the builder returns the fallbacks (empty if
  absent) with the primary URL prepended when it is present and not the empty string (an
  empty primary URL is treated like an absent one), deduplicated keeping the first
  occurrence of every URL in order: the result has no duplicates and has the members of
  that sequence.
\<close>

theorem calculateUrls_build:
  "calculateUrls False url urls =
     build (if truthy (present url) then present url else None) (present urls) False \<and>
   distinct (calculateUrls False url urls) \<and>
   set (calculateUrls False url urls) =
     set ((if truthy (present url) then [the (present url)] else []) @
          (case present urls of None \<Rightarrow> [] | Some us \<Rightarrow> us))"
proof -
  have eq: "calculateUrls False url urls =
      build (if truthy (present url) then present url else None) (present urls) False"
    by (simp add: calculateUrls_def build_def truthy_def present_def new_Set_dedup_first Let_def
        split: js.splits)
  have d: "distinct (calculateUrls False url urls)"
    by (simp add: eq build_def distinct_dedup_first)
  have s: "set (calculateUrls False url urls) =
     set ((if truthy (present url) then [the (present url)] else []) @
          (case present urls of None \<Rightarrow> [] | Some us \<Rightarrow> us))"
    by (simp add: eq build_def set_dedup_first truthy_def present_def split: js.splits)
  from eq d s show ?thesis by blast
qed

theorem calculateUrls_build_witness:
  "calculateUrls False (Value ''A'') (Value [''B'', ''A'', ''C'']) = [''A'', ''B'', ''C''] \<and>
   calculateUrls False Undefined (Value [''A'', ''A'']) = [''A''] \<and>
   calculateUrls False (Value '''') (Value [''A'']) = [''A''] \<and>
   calculateUrls False Null Null = []"
  using calculateUrls_build [of "Value ''A''" "Value [''B'', ''A'', ''C'']"]
    calculateUrls_build [of Undefined "Value [''A'', ''A'']"]
    calculateUrls_build [of "Value ''''" "Value [''A'']"]
    calculateUrls_build [of Null Null]
  by (simp add: build_def truthy_def present_def)

section \<open>Claims about the retry cursor\<close>

lemma run_Nil: "run [] st = st"
  by (simp add: run_def)

lemma run_Cons: "run (ev # evs) st = run evs (step ev st)"
  by (simp add: run_def)

lemma run_failures:
  "run (replicate k LoadFailure) st = st\<lparr>urlsIndex := urlsIndex st + k\<rparr>"
  by (induction k arbitrary: st) (simp_all add: run_Nil run_Cons onError_def)

lemma mount_state:
  "useImageUrl_mount lb url urls =
     \<lparr>imageUrls = calculateUrls lb url urls, urlsIndex = 0, deps = (url, JSON_stringify urls)\<rparr>"
  by (simp add: useImageUrl_mount_def effect_def)

text \<open>
  C1. Let the candidate list be built from the inputs, of length N. Initially the resolved
  candidate is the first element; after k load failures it is the element at position k
  as long as k is below N; after N or more failures it is absent, and every further
  failure returns normally and leaves it absent.
\<close>

theorem useImageUrl_failures:
  "imageUrl (run (replicate k LoadFailure) (useImageUrl_mount lb url urls)) =
     (if k < length (calculateUrls lb url urls) then Some (calculateUrls lb url urls ! k)
      else None)"
  by (simp add: run_failures mount_state imageUrl_def index_at_def)

theorem useImageUrl_failures_witness:
  "calculateUrls False (Value ''A'') (Value [''B'']) = [''A'', ''B''] \<and>
   imageUrl (run [] (useImageUrl_mount False (Value ''A'') (Value [''B'']))) = Some ''A'' \<and>
   imageUrl (run [LoadFailure] (useImageUrl_mount False (Value ''A'') (Value [''B'']))) = Some ''B'' \<and>
   imageUrl (run [LoadFailure, LoadFailure]
     (useImageUrl_mount False (Value ''A'') (Value [''B'']))) = None \<and>
   imageUrl (run [LoadFailure, LoadFailure, LoadFailure]
     (useImageUrl_mount False (Value ''A'') (Value [''B'']))) = None"
proof -
  have c: "calculateUrls False (Value ''A'') (Value [''B'']) = [''A'', ''B'']"
    by (simp add: calculateUrls_def new_Set_def Set_add_def Array_from_def)
  have r0: "replicate 0 LoadFailure = []"
    and r1: "replicate 1 LoadFailure = [LoadFailure]"
    and r2: "replicate 2 LoadFailure = [LoadFailure, LoadFailure]"
    and r3: "replicate 3 LoadFailure = [LoadFailure, LoadFailure, LoadFailure]"
    by (simp_all add: numeral_2_eq_2 numeral_3_eq_3)
  show ?thesis
    using useImageUrl_failures [of 0 False "Value ''A''" "Value [''B'']"]
      useImageUrl_failures [of 1 False "Value ''A''" "Value [''B'']"]
      useImageUrl_failures [of 2 False "Value ''A''" "Value [''B'']"]
      useImageUrl_failures [of 3 False "Value ''A''" "Value [''B'']"]
    by (simp add: c r0 r1 r2 r3)
qed

text \<open>
  C2. For every state of the hook (every cursor, the exhausted one included) and every
  connectivity event: when the current sync state is not the error state and differs from
  the previous one, the cursor becomes 0; when the current state is the error state or
  equals the previous one, the cursor is unchanged.
\<close>

theorem onClientSync_cursor:
  "(syncState \<noteq> Value ''ERROR'' \<and> syncState \<noteq> prevState \<longrightarrow>
      urlsIndex (onClientSync syncState prevState st) = 0) \<and>
   (syncState = Value ''ERROR'' \<or> syncState = prevState \<longrightarrow>
      urlsIndex (onClientSync syncState prevState st) = urlsIndex st)"
  by (auto simp: onClientSync_def)

lemma onClientSync_imageUrls: "imageUrls (onClientSync syncState prevState st) = imageUrls st"
  by (simp add: onClientSync_def)

theorem onClientSync_cursor_witness:
  "urlsIndex (onClientSync (Value ''SYNCING'') (Value ''ERROR'')
     (run [LoadFailure, LoadFailure] (useImageUrl_mount False (Value ''A'') (Value [''B''])))) = 0 \<and>
   imageUrl (onClientSync (Value ''SYNCING'') (Value ''ERROR'')
     (run [LoadFailure, LoadFailure] (useImageUrl_mount False (Value ''A'') (Value [''B''])))) =
     Some ''A'' \<and>
   urlsIndex (onClientSync (Value ''ERROR'') (Value ''SYNCING'')
     (run [LoadFailure, LoadFailure] (useImageUrl_mount False (Value ''A'') (Value [''B''])))) = 2 \<and>
   urlsIndex (onClientSync (Value ''SYNCING'') (Value ''SYNCING'')
     (run [LoadFailure] (useImageUrl_mount False (Value ''A'') (Value [''B''])))) = 1"
  using
    onClientSync_cursor [of "Value ''SYNCING''" "Value ''ERROR''"
      "run [LoadFailure, LoadFailure] (useImageUrl_mount False (Value ''A'') (Value [''B'']))"]
    onClientSync_cursor [of "Value ''ERROR''" "Value ''SYNCING''"
      "run [LoadFailure, LoadFailure] (useImageUrl_mount False (Value ''A'') (Value [''B'']))"]
    onClientSync_cursor [of "Value ''SYNCING''" "Value ''SYNCING''"
      "run [LoadFailure] (useImageUrl_mount False (Value ''A'') (Value [''B'']))"]
  by (simp add: imageUrl_def index_at_def onClientSync_imageUrls run_def onError_def mount_state
      calculateUrls_def new_Set_def Set_add_def Array_from_def)

text \<open>
  C3. Let the hook have recorded the dependencies of a render with the inputs \<open>url0\<close> and
  \<open>urls0\<close>. A render whose primary URL or whose fallback list differs from these (the
  lists compared as sequences of strings; \<^verbatim>\<open>undefined\<close> and \<^verbatim>\<open>null\<close> are different
  values) rebuilds the candidate list from the new inputs and sets the cursor to 0,
  whatever the cursor was.
\<close>

theorem input_change_resets:
  assumes "deps st = (url0, JSON_stringify urls0)"
    and "url \<noteq> url0 \<or> urls \<noteq> urls0"
  shows "useImageUrl_update lb url urls st =
    \<lparr>imageUrls = calculateUrls lb url urls, urlsIndex = 0, deps = (url, JSON_stringify urls)\<rparr>"
proof -
  have "(url, JSON_stringify urls) \<noteq> deps st"
    using assms JSON_stringify_inj by auto
  then show ?thesis
    by (simp add: useImageUrl_update_def effect_def)
qed

theorem input_change_resets_witness:
  "urlsIndex (run [LoadFailure] (useImageUrl_mount False (Value ''A'') (Value [''B'']))) = 1 \<and>
   imageUrls (useImageUrl_update False (Value ''A'') (Value [''C'', ''B''])
     (run [LoadFailure] (useImageUrl_mount False (Value ''A'') (Value [''B''])))) = [''A'', ''C'', ''B''] \<and>
   urlsIndex (useImageUrl_update False (Value ''A'') (Value [''C'', ''B''])
     (run [LoadFailure] (useImageUrl_mount False (Value ''A'') (Value [''B''])))) = 0 \<and>
   imageUrl (useImageUrl_update False (Value ''C'') (Value [''B''])
     (run [LoadFailure, LoadFailure, LoadFailure]
       (useImageUrl_mount False (Value ''A'') (Value [''B''])))) = Some ''C'' \<and>
   urlsIndex (run [LoadFailure]
     (useImageUrl_mount False Undefined (Value [''A'', ''B'']))) = 1 \<and>
   urlsIndex (useImageUrl_update True Null (Value [''A'', ''B''])
     (run [LoadFailure] (useImageUrl_mount False Undefined (Value [''A'', ''B''])))) = 0 \<and>
   imageUrls (useImageUrl_update True Null (Value [''A'', ''B''])
     (run [LoadFailure] (useImageUrl_mount False Undefined (Value [''A'', ''B''])))) = []"
  using
    input_change_resets [of "run [LoadFailure] (useImageUrl_mount False (Value ''A'') (Value [''B'']))"
      "Value ''A''" "Value [''B'']" "Value ''A''" "Value [''C'', ''B'']" False]
    input_change_resets [of "run [LoadFailure, LoadFailure, LoadFailure]
        (useImageUrl_mount False (Value ''A'') (Value [''B'']))"
      "Value ''A''" "Value [''B'']" "Value ''C''" "Value [''B'']" False]
    input_change_resets [of "run [LoadFailure]
        (useImageUrl_mount False Undefined (Value [''A'', ''B'']))"
      Undefined "Value [''A'', ''B'']" Null "Value [''A'', ''B'']" True]
  by (simp add: run_def onError_def mount_state imageUrl_def index_at_def
      calculateUrls_def new_Set_def Set_add_def Array_from_def)

text \<open>
  C4, as stated: after every sequence of events the cursor is at most the length N of the
  candidate list, because the increment saturates. The handler is
  \<^verbatim>\<open>setIndex(i => i + 1)\<close> with no bound, so a third failure on a list of two
  candidates leaves the cursor at 3.
\<close>

theorem cursor_exceeds_length_counterexample:
  "urlsIndex (run [LoadFailure, LoadFailure, LoadFailure]
      (useImageUrl_mount False (Value ''A'') (Value [''B'']))) = 3 \<and>
   length (imageUrls (run [LoadFailure, LoadFailure, LoadFailure]
      (useImageUrl_mount False (Value ''A'') (Value [''B''])))) = 2 \<and>
   \<not> urlsIndex (run [LoadFailure, LoadFailure, LoadFailure]
      (useImageUrl_mount False (Value ''A'') (Value [''B''])))
     \<le> length (imageUrls (run [LoadFailure, LoadFailure, LoadFailure]
      (useImageUrl_mount False (Value ''A'') (Value [''B'']))))"
  by (simp add: run_def onError_def mount_state calculateUrls_def new_Set_def Set_add_def
      Array_from_def)

lemma step_cursor_le:
  assumes "urlsIndex st \<le> length (imageUrls st)"
    and "ev = LoadFailure \<Longrightarrow> urlsIndex st < length (imageUrls st)"
  shows "urlsIndex (step ev st) \<le> length (imageUrls (step ev st))"
proof (cases ev)
  case LoadFailure
  with assms show ?thesis by (simp add: onError_def)
next
  case (Sync a b)
  with assms show ?thesis by (simp add: onClientSync_def)
next
  case (Render lb u us)
  with assms show ?thesis by (simp add: useImageUrl_update_def effect_def Let_def)
qed

lemma run_cursor_le:
  "urlsIndex st \<le> length (imageUrls st) \<Longrightarrow> failures_while_resolved evs st \<Longrightarrow>
   urlsIndex (run evs st) \<le> length (imageUrls (run evs st))"
proof (induction evs arbitrary: st)
  case Nil
  then show ?case by (simp add: run_Nil)
next
  case (Cons ev evs)
  have "urlsIndex (step ev st) \<le> length (imageUrls (step ev st))"
    using Cons.prems by (intro step_cursor_le) (simp_all split: if_splits)
  moreover have "failures_while_resolved evs (step ev st)"
    using Cons.prems by simp
  ultimately show ?case by (simp add: run_Cons Cons.IH)
qed

text \<open>
  C4, amended. Each load failure increments the cursor by exactly 1, and the increment
  does not saturate. After every sequence of load-failure, reconnection and input-change
  events in which each load failure arrives while a candidate is still resolved (cursor
  below N), the cursor lies in 0..N for the current candidate list. A load failure in the
  exhausted state moves the cursor beyond N; at every cursor from N on the resolved
  candidate is absent.
\<close>

theorem cursor_bounds:
  "urlsIndex (step LoadFailure st) = urlsIndex st + 1 \<and>
   (failures_while_resolved evs (useImageUrl_mount lb url urls) \<longrightarrow>
      urlsIndex (run evs (useImageUrl_mount lb url urls))
        \<le> length (imageUrls (run evs (useImageUrl_mount lb url urls)))) \<and>
   (length (imageUrls st) \<le> urlsIndex st \<longrightarrow> imageUrl st = None)"
proof -
  have "urlsIndex (useImageUrl_mount lb url urls)
      \<le> length (imageUrls (useImageUrl_mount lb url urls))"
    by (simp add: mount_state)
  then show ?thesis
    by (simp add: run_cursor_le onError_def imageUrl_def index_at_def)
qed

theorem cursor_bounds_witness:
  "urlsIndex (step LoadFailure
     (run [LoadFailure, LoadFailure] (useImageUrl_mount False (Value ''A'') (Value [''B''])))) = 3 \<and>
   failures_while_resolved
     [LoadFailure, Sync (Value ''SYNCING'') (Value ''ERROR''), LoadFailure, LoadFailure,
      Render False (Value ''C'') Undefined]
     (useImageUrl_mount False (Value ''A'') (Value [''B''])) \<and>
   urlsIndex (run
     [LoadFailure, Sync (Value ''SYNCING'') (Value ''ERROR''), LoadFailure, LoadFailure]
     (useImageUrl_mount False (Value ''A'') (Value [''B'']))) = 2 \<and>
   imageUrl (run [LoadFailure, LoadFailure]
     (useImageUrl_mount False (Value ''A'') (Value [''B'']))) = None"
proof -
  have c: "calculateUrls False (Value ''A'') (Value [''B'']) = [''A'', ''B'']"
    by (simp add: calculateUrls_def new_Set_def Set_add_def Array_from_def)
  have f: "failures_while_resolved
     [LoadFailure, Sync (Value ''SYNCING'') (Value ''ERROR''), LoadFailure, LoadFailure,
      Render False (Value ''C'') Undefined]
     (useImageUrl_mount False (Value ''A'') (Value [''B'']))"
    by (simp add: mount_state c onError_def onClientSync_def)
  show ?thesis
    using f
      cursor_bounds [of "run [LoadFailure, LoadFailure]
          (useImageUrl_mount False (Value ''A'') (Value [''B'']))"
        "[LoadFailure, Sync (Value ''SYNCING'') (Value ''ERROR''), LoadFailure, LoadFailure,
          Render False (Value ''C'') Undefined]" False "Value ''A''" "Value [''B'']"]
    by (simp add: run_def mount_state c onError_def onClientSync_def)
qed

lemma run_same_inputs:
  "list_all (same_inputs url urls) evs \<Longrightarrow> deps st = (url, JSON_stringify urls) \<Longrightarrow>
   imageUrls (run evs st) = imageUrls st \<and> deps (run evs st) = deps st"
proof (induction evs arbitrary: st)
  case Nil
  then show ?case by (simp add: run_Nil)
next
  case (Cons ev evs)
  have "imageUrls (step ev st) = imageUrls st \<and> deps (step ev st) = deps st"
    using Cons.prems
    by (cases ev) (simp_all add: onError_def onClientSync_def useImageUrl_update_def)
  then show ?case using Cons by (simp add: run_Cons)
qed

text \<open>
  C10. The load-error handler and the connectivity handler change nothing but the cursor:
  in every state the candidate list (and the recorded dependency array) is as it was.
  A render that passes the same \<^verbatim>\<open>url\<close> and \<^verbatim>\<open>urls\<close> as the previous one (the same
  string or the same sequence of strings, \<^verbatim>\<open>undefined\<close> again for \<^verbatim>\<open>undefined\<close> and
  \<^verbatim>\<open>null\<close> again for \<^verbatim>\<open>null\<close>) leaves the whole state alone, whatever the bandwidth
  setting has become, so over any run of events that keeps these inputs the candidate list
  is the one built when the component was mounted; only a change of these inputs rebuilds it.
\<close>

theorem handlers_keep_candidates:
  "onError st = st\<lparr>urlsIndex := urlsIndex (onError st)\<rparr> \<and>
   onClientSync syncState prevState st =
     st\<lparr>urlsIndex := urlsIndex (onClientSync syncState prevState st)\<rparr> \<and>
   imageUrls (onError st) = imageUrls st \<and>
   imageUrls (onClientSync syncState prevState st) = imageUrls st \<and>
   (deps st = (url, JSON_stringify urls) \<longrightarrow> useImageUrl_update lb' url urls st = st) \<and>
   (list_all (same_inputs url urls) evs \<longrightarrow>
      imageUrls (run evs (useImageUrl_mount lb url urls)) = calculateUrls lb url urls)"
proof -
  have "deps (useImageUrl_mount lb url urls) = (url, JSON_stringify urls)"
    by (simp add: mount_state)
  then have "list_all (same_inputs url urls) evs \<Longrightarrow>
      imageUrls (run evs (useImageUrl_mount lb url urls)) = calculateUrls lb url urls"
    using run_same_inputs [of url urls evs "useImageUrl_mount lb url urls"]
    by (simp add: mount_state)
  then show ?thesis
    by (simp add: onError_def onClientSync_def useImageUrl_update_def)
qed

theorem handlers_keep_candidates_witness:
  "imageUrls (onError \<lparr>imageUrls = [''A'', ''B''], urlsIndex = 1, deps = (Value ''A'', None)\<rparr>)
     = [''A'', ''B''] \<and>
   imageUrls (onClientSync (Value ''SYNCING'') (Value ''ERROR'')
     \<lparr>imageUrls = [''A'', ''B''], urlsIndex = 1, deps = (Value ''A'', None)\<rparr>) = [''A'', ''B''] \<and>
   useImageUrl_update True (Value ''A'') (Value [''B''])
     (useImageUrl_mount False (Value ''A'') (Value [''B'']))
     = useImageUrl_mount False (Value ''A'') (Value [''B'']) \<and>
   imageUrls (run
     [LoadFailure, Render True (Value ''A'') (Value [''B'']), Sync (Value ''SYNCING'') Null]
     (useImageUrl_mount False (Value ''A'') (Value [''B'']))) = [''A'', ''B'']"
proof -
  have c: "calculateUrls False (Value ''A'') (Value [''B'']) = [''A'', ''B'']"
    by (simp add: calculateUrls_def new_Set_def Set_add_def Array_from_def)
  show ?thesis
    using
      handlers_keep_candidates
        [of "\<lparr>imageUrls = [''A'', ''B''], urlsIndex = 1, deps = (Value ''A'', None)\<rparr>"
          "Value ''SYNCING''" "Value ''ERROR''" "Value ''A''" Undefined True "[]" False]
      handlers_keep_candidates
        [of "useImageUrl_mount False (Value ''A'') (Value [''B''])"
          "Value ''SYNCING''" "Value ''ERROR''" "Value ''A''" "Value [''B'']" True
          "[LoadFailure, Render True (Value ''A'') (Value [''B'']), Sync (Value ''SYNCING'') Null]"
          False]
    by (simp add: c mount_state)
qed

section \<open>Claims about rendering\<close>


lemma render_image_type:
  "render_image env props w h src = Inr el \<Longrightarrow>
   el_type el = (if prop_onClick props = None then Host ''img'' else AccessibleButton)"
  by (auto simp: render_image_def and_then_def split: option.splits sum.splits)

lemma render_image_src:
  "render_image env props w h src = Inr el \<Longrightarrow> otherProps props ''src'' = None \<Longrightarrow>
   el_props el ''src'' = Some (of_string src)"
  by (auto simp: render_image_def and_then_def spread_def map_add_def split: option.splits sum.splits)

lemma render_image_generators:
  "render_image (env\<lparr>defaultAvatarUrlForString := f, getInitialLetter := g\<rparr>) props w h src =
   render_image env props w h src"
  by (simp add: render_image_def split: option.splits)

lemma BaseAvatar_disabled:
  "prop_defaultToInitialLetter props = Value False \<Longrightarrow>
   BaseAvatar env props st =
     render_image env props (case prop_width props of None \<Rightarrow> 40 | Some w \<Rightarrow> w)
       (case prop_height props of None \<Rightarrow> 40 | Some h \<Rightarrow> h) (imageUrl st)"
  by (simp add: BaseAvatar_def)

lemma render_placeholder_resizeMethod:
  "render_placeholder env (props\<lparr>prop_resizeMethod := m\<rparr>) w h d =
   render_placeholder env props w h d"
  by (cases "prop_onClick props") (simp_all add: render_placeholder_def)

lemma render_image_resizeMethod:
  "render_image env (props\<lparr>prop_resizeMethod := m\<rparr>) w h src = render_image env props w h src"
  by (cases "prop_onClick props") (simp_all add: render_image_def)

lemma BaseAvatar_resizeMethod:
  "BaseAvatar env (props\<lparr>prop_resizeMethod := m\<rparr>) st = BaseAvatar env props st"
  by (simp add: BaseAvatar_def Let_def render_placeholder_resizeMethod render_image_resizeMethod)




text \<open>
  C8. When \<^verbatim>\<open>defaultToInitialLetter\<close> is false, the component returns what its image
  branch returns, in every state of the hook: the color and initial-letter generators of
  the placeholder have no influence on the result, the element is an \<^verbatim>\<open>img\<close> (the button
  when there is a click handler) and never the placeholder \<^verbatim>\<open>span\<close>; when no candidate
  resolves it is an image whose source is \<^verbatim>\<open>undefined\<close> (unless the caller passes a
  \<^verbatim>\<open>src\<close> of its own).
\<close>

theorem no_placeholder_when_disabled:
  assumes "prop_defaultToInitialLetter props = Value False"
  shows "BaseAvatar env props st =
       render_image env props (case prop_width props of None \<Rightarrow> 40 | Some w \<Rightarrow> w)
         (case prop_height props of None \<Rightarrow> 40 | Some h \<Rightarrow> h) (imageUrl st) \<and>
     BaseAvatar (env\<lparr>defaultAvatarUrlForString := f, getInitialLetter := g\<rparr>) props st =
       BaseAvatar env props st \<and>
     (\<forall>el. BaseAvatar env props st = Inr el \<longrightarrow>
        el_type el = (if prop_onClick props = None then Host ''img'' else AccessibleButton) \<and>
        (imageUrl st = None \<and> otherProps props ''src'' = None \<longrightarrow>
           el_props el ''src'' = Some VUndefined))"
proof (intro conjI allI impI)
  show "BaseAvatar env props st =
       render_image env props (case prop_width props of None \<Rightarrow> 40 | Some w \<Rightarrow> w)
         (case prop_height props of None \<Rightarrow> 40 | Some h \<Rightarrow> h) (imageUrl st)"
    using assms by (rule BaseAvatar_disabled)
  show "BaseAvatar (env\<lparr>defaultAvatarUrlForString := f, getInitialLetter := g\<rparr>) props st =
       BaseAvatar env props st"
    by (simp add: BaseAvatar_disabled [OF assms] render_image_generators)
next
  fix el
  assume "BaseAvatar env props st = Inr el"
  then show "el_type el = (if prop_onClick props = None then Host ''img'' else AccessibleButton)"
    unfolding BaseAvatar_disabled [OF assms] by (rule render_image_type)
next
  fix el
  assume "BaseAvatar env props st = Inr el"
    and "imageUrl st = None \<and> otherProps props ''src'' = None"
  then show "el_props el ''src'' = Some VUndefined"
    unfolding BaseAvatar_disabled [OF assms]
    using render_image_src [of env props _ _ None el] by (simp add: of_string_def)
qed

theorem no_placeholder_when_disabled_witness:
  "BaseAvatar example_collaborators (example_props (Some ''Alice'') (Value False))
     (useImageUrl_mount False Undefined Undefined) =
   Inr (Element (Host ''img'')
     [''className'' \<mapsto> VString ''mx_BaseAvatar mx_BaseAvatar_image'',
      ''src'' \<mapsto> VUndefined,
      ''onError'' \<mapsto> VOnError,
      ''style'' \<mapsto> VStyle [''width'' \<mapsto> CssString ''1px'', ''height'' \<mapsto> CssString ''1px''],
      ''title'' \<mapsto> VUndefined,
      ''alt'' \<mapsto> VString '''',
      ''ref'' \<mapsto> VUndefined])"
  using no_placeholder_when_disabled
    [of "example_props (Some ''Alice'') (Value False)" example_collaborators
      "useImageUrl_mount False Undefined Undefined"]
  by (simp add: example_props_def example_collaborators_def spec_collaborators_def
      example_toPixels_def example_translate_def example_classes_def
      render_image_def and_then_def
      of_string_def of_ref_def spread_def mount_state imageUrl_def index_at_def
      calculateUrls_def new_Set_def Array_from_def)

text \<open>
  C9. Two configurations that differ only in \<^verbatim>\<open>resizeMethod\<close> render the same element
  in every state of the hook, and lead to the same state and element on the first render
  and on every later one.
\<close>

theorem resizeMethod_inert:
  "BaseAvatar env (props\<lparr>prop_resizeMethod := m\<rparr>) st = BaseAvatar env props st \<and>
   BaseAvatar_mount env (props\<lparr>prop_resizeMethod := m\<rparr>) = BaseAvatar_mount env props \<and>
   BaseAvatar_rerender env (props\<lparr>prop_resizeMethod := m\<rparr>) st = BaseAvatar_rerender env props st"
  by (simp add: BaseAvatar_resizeMethod BaseAvatar_mount_def BaseAvatar_rerender_def)

end
